theory Spec2Isabelle
  imports Complex_Main "HOL-Library.AList"
begin

section \<open>Host-language primitives\<close>

text \<open>
  The engine is JavaScript. Numbers are modelled as exact reals (scores, prices) and
  integers (stock, paging, clock readings in milliseconds); strings are byte lists and the
  string primitives below cover the ASCII range. An insertion-ordered \<open>Map\<close> is an
  association list with distinct keys, in insertion order.
\<close>

definition toLowerChar :: "char \<Rightarrow> char" where
  "toLowerChar c =
     (let n = (of_char c :: nat) in if 65 \<le> n \<and> n \<le> 90 then char_of (n + 32) else c)"

definition toLowerCase :: "string \<Rightarrow> string" where
  "toLowerCase s = map toLowerChar s"

definition isSpace :: "char \<Rightarrow> bool" where
  "isSpace c = ((of_char c :: nat) \<in> {9, 10, 11, 12, 13, 32})"

definition trim :: "string \<Rightarrow> string" where
  "trim s = rev (dropWhile isSpace (rev (dropWhile isSpace s)))"

text \<open>\<open>s.includes(sub)\<close>: \<open>sub\<close> occurs in \<open>s\<close> as a contiguous run.\<close>

fun isPrefix :: "string \<Rightarrow> string \<Rightarrow> bool" where
  "isPrefix [] s = True"
| "isPrefix (c # cs) [] = False"
| "isPrefix (c # cs) (d # ds) = (c = d \<and> isPrefix cs ds)"

fun includesStr :: "string \<Rightarrow> string \<Rightarrow> bool" where
  "includesStr [] sub = (sub = [])"
| "includesStr (c # cs) sub = (isPrefix sub (c # cs) \<or> includesStr cs sub)"

text \<open>
  \<open>s.split(/\s+/)\<close>: every maximal run of white space is one separator; a separator at
  either end leaves an empty first or last piece, and the empty string splits into one
  empty piece. The flag records that the previous character was white space.
\<close>

fun splitWs :: "bool \<Rightarrow> string \<Rightarrow> string \<Rightarrow> string list" where
  "splitWs inWs acc [] = [rev acc]"
| "splitWs inWs acc (c # cs) =
     (if isSpace c then (if inWs then splitWs True acc cs else rev acc # splitWs True [] cs)
      else splitWs False (c # acc) cs)"

definition splitWhitespace :: "string \<Rightarrow> string list" where
  "splitWhitespace s = splitWs False [] s"

text \<open>\<open>[...new Set(xs)]\<close>: the first occurrence of every element, in order.\<close>

definition uniqueInOrder :: "'a list \<Rightarrow> 'a list" where
  "uniqueInOrder xs = rev (remdups (rev xs))"

text \<open>
  \<open>a.localeCompare(b)\<close>, modelled as the comparison of the two byte sequences: negative,
  zero or positive. The host collates instead (letter case, for one, is secondary there);
  no theorem below depends on the value.
\<close>

fun localeCompare :: "string \<Rightarrow> string \<Rightarrow> int" where
  "localeCompare [] [] = 0"
| "localeCompare [] (d # ds) = - 1"
| "localeCompare (c # cs) [] = 1"
| "localeCompare (c # cs) (d # ds) =
     (if (of_char c :: nat) < of_char d then - 1
      else if (of_char d :: nat) < of_char c then 1
      else localeCompare cs ds)"

text \<open>
  \<open>xs.slice(start, end)\<close> on integers: a negative index counts from the end, and both
  ends are cut to the array.
\<close>

definition slice :: "'a list \<Rightarrow> int \<Rightarrow> int \<Rightarrow> 'a list" where
  "slice xs start end =
     (let len = int (length xs);
          k = (if start < 0 then max (len + start) 0 else min start len);
          final = (if end < 0 then max (len + end) 0 else min end len)
      in take (nat (final - k)) (drop (nat k) xs))"

text \<open>
  \<open>xs.sort(cmp)\<close>: the host's sort is stable, and \<open>a\<close> stays before \<open>b\<close> unless
  \<open>cmp(a, b) > 0\<close>. Insertion from the right is the stable sort by a comparator.
\<close>

fun insertBy :: "('a \<Rightarrow> 'a \<Rightarrow> 'b::{zero,linorder}) \<Rightarrow> 'a \<Rightarrow> 'a list \<Rightarrow> 'a list" where
  "insertBy cmp x [] = [x]"
| "insertBy cmp x (y # ys) = (if cmp x y \<le> 0 then x # y # ys else y # insertBy cmp x ys)"

definition arraySort :: "('a \<Rightarrow> 'a \<Rightarrow> 'b::{zero,linorder}) \<Rightarrow> 'a list \<Rightarrow> 'a list" where
  "arraySort cmp xs = foldr (insertBy cmp) xs []"

section \<open>Data model\<close>

datatype product_status = Active | Inactive | Out_of_stock

text \<open>A brand or a category, as joined to the product by the repository.\<close>

record entity =
  ref_id :: string
  ref_name :: string
  ref_slug :: string

text \<open>
  A catalog item. \<open>name\<close> and \<open>price\<close> are \<open>NOT NULL\<close> in the schema, and
  \<open>price\<close> stands for \<open>parseFloat(product.price) || 0\<close>;
  \<open>model\<close>, \<open>description\<close>, \<open>brand\<close> and \<open>category\<close> may be null. A null
  \<open>stock_quantity\<close> or \<open>average_rating\<close> compares like 0 in every test the engine makes,
  so both are plain numbers here. \<open>item_keywords\<close> is the list the text search adds.
\<close>

record product =
  pid :: string
  name :: string
  model :: "string option"
  description :: "string option"
  brand :: "entity option"
  category :: "entity option"
  price :: real
  stock_quantity :: int
  status :: product_status
  is_featured :: bool
  is_bestseller :: bool
  average_rating :: real
  created_at :: int
  item_keywords :: "string list"

text \<open>The filter set handed to the Filter Stage; no upper price bound is \<open>Infinity\<close>.\<close>

record filters =
  f_brand :: string
  f_category :: string
  f_minPrice :: real
  f_maxPrice :: "real option"
  f_inStock :: bool

section \<open>Filter Stage\<close>

text \<open>The callback of \<open>applyBasicFilters\<close>, with its early returns in the source's order.\<close>

definition keepsProduct :: "filters \<Rightarrow> product \<Rightarrow> bool" where
  "keepsProduct f p =
     (if f_brand f \<noteq> [] \<and> map_option ref_slug (brand p) \<noteq> Some (f_brand f) then False
      else if f_category f \<noteq> [] \<and> map_option ref_slug (category p) \<noteq> Some (f_category f)
        then False
      else if price p < f_minPrice f then False
      else if (case f_maxPrice f of None \<Rightarrow> False | Some m \<Rightarrow> price p > m) then False
      else if f_inStock f \<and> stock_quantity p \<le> 0 then False
      else if status p \<noteq> Active then False
      else True)"

definition applyBasicFilters :: "product list \<Rightarrow> filters \<Rightarrow> product list" where
  "applyBasicFilters products f = filter (keepsProduct f) products"

text \<open>
  The Filter Stage as the specification words it: a candidate survives when it is active,
  its brand and category match where one is asked for, its price lies in the closed price
  range, and it is in stock where only stocked items are asked for.
\<close>

definition brandMatches :: "filters \<Rightarrow> product \<Rightarrow> bool" where
  "brandMatches f p = (case brand p of None \<Rightarrow> False | Some b \<Rightarrow> ref_slug b = f_brand f)"

definition categoryMatches :: "filters \<Rightarrow> product \<Rightarrow> bool" where
  "categoryMatches f p =
     (case category p of None \<Rightarrow> False | Some c \<Rightarrow> ref_slug c = f_category f)"

definition priceInRange :: "filters \<Rightarrow> product \<Rightarrow> bool" where
  "priceInRange f p =
     (f_minPrice f \<le> price p \<and> (case f_maxPrice f of None \<Rightarrow> True | Some m \<Rightarrow> price p \<le> m))"

definition satisfiesFilterSpec :: "filters \<Rightarrow> product \<Rightarrow> bool" where
  "satisfiesFilterSpec f p =
     (status p = Active
      \<and> (f_brand f \<noteq> [] \<longrightarrow> brandMatches f p)
      \<and> (f_category f \<noteq> [] \<longrightarrow> categoryMatches f p)
      \<and> priceInRange f p
      \<and> (f_inStock f \<longrightarrow> stock_quantity p > 0))"

section \<open>Matching Stage\<close>

text \<open>
  A match record. The fuzzy matcher's records come from the Fuse library and carry its
  \<open>refIndex\<close>; the records of the other two matchers have none.
\<close>

record match_record =
  item :: product
  score :: real
  matches :: "(string \<times> string) list"
  algorithm :: string
  refIndex :: "nat option"

text \<open>
  What \<open>fuse.search(query)\<close> answers for a product list: the library is not part of the
  repository, so its search is a parameter of the model. The constructor's options
  comment fixes the scale of the library's score: \<open>0.0 = perfect match, 1.0 = match
  anything\<close>.
\<close>

record fuse_result =
  fr_item :: product
  fr_refIndex :: nat
  fr_score :: real
  fr_matches :: "(string \<times> string) list"

type_synonym fuse = "product list \<Rightarrow> string \<Rightarrow> fuse_result list"

definition fuzzySearch :: "fuse \<Rightarrow> product list \<Rightarrow> string \<Rightarrow> match_record list" where
  "fuzzySearch fuseSearch products query =
     map (\<lambda>result. \<lparr>item = fr_item result, score = fr_score result,
                     matches = fr_matches result, algorithm = ''fuzzy'',
                     refIndex = Some (fr_refIndex result)\<rparr>)
       (fuseSearch products query)"

text \<open>\<open>field && field.toLowerCase().includes(q)\<close> on a field that may be null.\<close>

definition fieldIncludes :: "string option \<Rightarrow> string \<Rightarrow> bool" where
  "fieldIncludes field q =
     (case field of None \<Rightarrow> False | Some v \<Rightarrow> v \<noteq> [] \<and> includesStr (toLowerCase v) q)"

definition brandName :: "product \<Rightarrow> string option" where
  "brandName p = map_option ref_name (brand p)"

definition categoryName :: "product \<Rightarrow> string option" where
  "categoryName p = map_option ref_name (category p)"

text \<open>
  The three field tests of the loop body of \<open>findExactMatches\<close>: the score and the
  explanations they leave for one product.
\<close>

definition exactFields :: "string \<Rightarrow> product \<Rightarrow> real \<times> (string \<times> string) list" where
  "exactFields queryLower p =
     (let (s1, m1) = (if fieldIncludes (Some (name p)) queryLower
                      then (0 + 9 / 10, [(''name'', name p)]) else (0, []));
          (s2, m2) = (if fieldIncludes (model p) queryLower
                      then (s1 + 8 / 10, m1 @ [(''model'', the (model p))]) else (s1, m1));
          (s3, m3) = (if fieldIncludes (brandName p) queryLower
                      then (s2 + 7 / 10, m2 @ [(''brand'', the (brandName p))]) else (s2, m2))
      in (s3, m3))"

definition exactMatch :: "string \<Rightarrow> product \<Rightarrow> match_record option" where
  "exactMatch queryLower p =
     (let (s, ms) = exactFields queryLower p
      in if s > 0
         then Some \<lparr>item = p, score = min s 1, matches = ms, algorithm = ''exact'',
                    refIndex = None\<rparr>
         else None)"

definition findExactMatches :: "product list \<Rightarrow> string \<Rightarrow> match_record list" where
  "findExactMatches products query =
     List.map_filter (exactMatch (toLowerCase query)) products"

text \<open>One round of the inner loop of \<open>findPartialMatches\<close>: one query word on one product.\<close>

definition partialWord ::
  "product \<Rightarrow> string \<Rightarrow> real \<times> (string \<times> string) list \<Rightarrow> real \<times> (string \<times> string) list" where
  "partialWord p word acc =
     (let (s0, m0) = acc;
          (s1, m1) = (if fieldIncludes (Some (name p)) word
                      then (s0 + 3 / 10, m0 @ [(''name'', name p)]) else (s0, m0));
          (s2, m2) = (if fieldIncludes (brandName p) word
                      then (s1 + 2 / 10, m1 @ [(''brand'', the (brandName p))]) else (s1, m1));
          (s3, m3) = (if fieldIncludes (categoryName p) word
                      then (s2 + 15 / 100, m2 @ [(''category'', the (categoryName p))])
                      else (s2, m2));
          (s4, m4) = (if fieldIncludes (model p) word
                      then (s3 + 15 / 100, m3 @ [(''model'', the (model p))]) else (s3, m3))
      in (s4, m4))"

definition partialMatch :: "string list \<Rightarrow> product \<Rightarrow> match_record option" where
  "partialMatch queryWords p =
     (let (s, ms) = fold (partialWord p) queryWords (0, [])
      in if s > 0
         then Some \<lparr>item = p, score = min s 1, matches = ms, algorithm = ''partial'',
                    refIndex = None\<rparr>
         else None)"

definition findPartialMatches :: "product list \<Rightarrow> string \<Rightarrow> match_record list" where
  "findPartialMatches products query =
     List.map_filter (partialMatch (splitWhitespace (toLowerCase query))) products"

definition generateKeywords :: "product \<Rightarrow> string list" where
  "generateKeywords p =
     (let k1 = (if name p \<noteq> [] then splitWhitespace (toLowerCase (name p)) else []);
          k2 = k1 @ (case brandName p of None \<Rightarrow> []
                     | Some b \<Rightarrow> if b \<noteq> [] then [toLowerCase b] else []);
          k3 = k2 @ (case categoryName p of None \<Rightarrow> []
                     | Some c \<Rightarrow> if c \<noteq> [] then [toLowerCase c] else []);
          k4 = k3 @ (case model p of None \<Rightarrow> []
                     | Some m \<Rightarrow> if m \<noteq> [] then [toLowerCase m] else [])
      in uniqueInOrder (filter (\<lambda>keyword. keyword \<noteq> [] \<and> length keyword > 1) k4))"

section \<open>Merge and Score Stage\<close>

text \<open>
  The \<open>Map\<close> of \<open>combineSearchResults\<close> is keyed by \<open>result.item.id\<close> and holds the
  records in insertion order: a record whose id is already there only raises the score of
  the record that is there, any other record is appended.
\<close>

fun mergeResult :: "match_record \<Rightarrow> match_record list \<Rightarrow> match_record list" where
  "mergeResult result [] = [result]"
| "mergeResult result (existing # rest) =
     (if pid (item existing) = pid (item result)
      then existing\<lparr>score := max (score existing) (score result)\<rparr> # rest
      else existing # mergeResult result rest)"

definition combineSearchResults :: "match_record list list \<Rightarrow> match_record list" where
  "combineSearchResults resultArrays =
     fold (\<lambda>results resultsMap. fold mergeResult results resultsMap) resultArrays []"

definition performTextSearch :: "fuse \<Rightarrow> product list \<Rightarrow> string \<Rightarrow> match_record list" where
  "performTextSearch fuseSearch products query =
     (let searchableProducts =
            map (\<lambda>p. p\<lparr>item_keywords := generateKeywords p\<rparr>) products;
          fuseResults = fuzzySearch fuseSearch searchableProducts query;
          exactMatches = findExactMatches searchableProducts query;
          partialMatches = findPartialMatches searchableProducts query
      in combineSearchResults [fuseResults, exactMatches, partialMatches])"

definition boostedScore :: "match_record \<Rightarrow> real" where
  "boostedScore result =
     (let product = item result;
          s0 = score result;
          s1 = (if is_featured product then s0 * (12 / 10) else s0);
          s2 = (if is_bestseller product then s1 * (115 / 100) else s1);
          s3 = (if average_rating product > 4 then s2 * (11 / 10) else s2);
          s4 = (if stock_quantity product > 10 then s3 * (105 / 100) else s3);
          s5 = (if stock_quantity product \<le> 0 then s4 * (5 / 10) else s4)
      in s5)"

definition applyAdvancedScoring :: "match_record list \<Rightarrow> match_record list" where
  "applyAdvancedScoring results =
     map (\<lambda>result. result\<lparr>score := min (boostedScore result) 1\<rparr>) results"

section \<open>Sort and Paginate Stage\<close>

text \<open>The \<open>switch\<close> of the comparator: four cases and the default.\<close>

definition comparison :: "string \<Rightarrow> match_record \<Rightarrow> match_record \<Rightarrow> real" where
  "comparison sortKey a b =
     (if sortKey = ''relevance'' then score b - score a
      else if sortKey = ''price'' then price (item a) - price (item b)
      else if sortKey = ''name'' then of_int (localeCompare (name (item a)) (name (item b)))
      else if sortKey = ''rating'' then average_rating (item b) - average_rating (item a)
      else score b - score a)"

definition sortResults :: "match_record list \<Rightarrow> string \<Rightarrow> string \<Rightarrow> match_record list" where
  "sortResults results sortKey sortOrder =
     (let orderMultiplier = (if sortOrder = ''asc'' then 1 else - 1)
      in arraySort (\<lambda>a b. comparison sortKey a b * orderMultiplier) results)"

section \<open>Popularity Tracker\<close>

type_synonym popular = "(string \<times> nat) list"

definition logSearchAnalytics :: "string \<Rightarrow> popular \<Rightarrow> popular" where
  "logSearchAnalytics query popularSearches =
     (if query \<noteq> []
      then (let normalized = trim (toLowerCase query);
                count = (case map_of popularSearches normalized of None \<Rightarrow> 0 | Some c \<Rightarrow> c)
            in AList.update normalized (count + 1) popularSearches)
      else popularSearches)"

definition getPopularSearches :: "popular \<Rightarrow> int \<Rightarrow> (string \<times> nat) list" where
  "getPopularSearches popularSearches n =
     slice (arraySort (\<lambda>a b. int (snd b) - int (snd a)) popularSearches) 0 n"

section \<open>The engine's entry point\<close>

text \<open>
  A search request as the engine receives it: every field may be absent
  (\<open>undefined\<close>), and the destructuring defaults of \<open>search\<close> replace absent fields only.
\<close>

record search_params =
  sp_query :: "string option"
  sp_brand :: "string option"
  sp_category :: "string option"
  sp_minPrice :: "real option"
  sp_maxPrice :: "real option"
  sp_inStock :: "bool option"
  sp_sortBy :: "string option"
  sp_sortOrder :: "string option"
  sp_limit :: "int option"
  sp_offset :: "int option"

definition withDefault :: "'a \<Rightarrow> 'a option \<Rightarrow> 'a" where
  "withDefault d v = (case v of None \<Rightarrow> d | Some x \<Rightarrow> x)"

text \<open>A returned item: the product with \<open>_searchScore\<close> and \<open>_matches\<close> attached.\<close>

record search_hit =
  hit_product :: product
  searchScore :: real
  hit_matches :: "(string \<times> string) list"

text \<open>
  The echo of the filters in the metadata. The engine echoes its defaulted values; the
  service's \<open>extractFilters\<close> puts \<open>null\<close> for a missing brand, category or upper bound.
\<close>

record filters_echo =
  e_brand :: "string option"
  e_category :: "string option"
  e_minPrice :: real
  e_maxPrice :: "real option"
  e_inStock :: bool

record metadata =
  total :: int
  limit :: int
  offset :: int
  hasNext :: bool
  hasPrev :: bool
  duration :: int
  query :: string
  echoedFilters :: filters_echo

record 'h response =
  results :: "'h list"
  metadata :: metadata

text \<open>
  \<open>search\<close>, with the popularity map passed in and out and the elapsed time of the call
  (\<open>Date.now() - startTime\<close>) as a parameter. The records of the no-query branch have
  no \<open>algorithm\<close> field: the empty string stands for it.
\<close>

definition search ::
  "fuse \<Rightarrow> int \<Rightarrow> product list \<Rightarrow> search_params \<Rightarrow> popular \<Rightarrow> search_hit response \<times> popular" where
  "search fuseSearch elapsed products searchParams popularSearches =
     (let query = withDefault [] (sp_query searchParams);
          brand = withDefault [] (sp_brand searchParams);
          category = withDefault [] (sp_category searchParams);
          minPrice = withDefault 0 (sp_minPrice searchParams);
          maxPrice = sp_maxPrice searchParams;
          inStock = withDefault False (sp_inStock searchParams);
          sortKey = withDefault ''relevance'' (sp_sortBy searchParams);
          sortOrder = withDefault ''desc'' (sp_sortOrder searchParams);
          limit = withDefault 50 (sp_limit searchParams);
          offset = withDefault 0 (sp_offset searchParams);
          filteredProducts = applyBasicFilters products
            \<lparr>f_brand = brand, f_category = category, f_minPrice = minPrice,
             f_maxPrice = maxPrice, f_inStock = inStock\<rparr>;
          textResults =
            (if query \<noteq> [] \<and> length (trim query) > 0
             then performTextSearch fuseSearch filteredProducts (trim query)
             else map (\<lambda>product. \<lparr>item = product, score = 1, matches = [], algorithm = [],
                                   refIndex = None\<rparr>) filteredProducts);
          scoredResults = applyAdvancedScoring textResults;
          searchResults = sortResults scoredResults sortKey sortOrder;
          totalResults = int (length searchResults);
          paginatedResults = slice searchResults offset (offset + limit)
      in (\<lparr>results = map (\<lambda>result. \<lparr>hit_product = item result, searchScore = score result,
                                       hit_matches = matches result\<rparr>) paginatedResults,
           metadata = \<lparr>total = totalResults, limit = limit, offset = offset,
                       hasNext = (offset + limit < totalResults), hasPrev = (offset > 0),
                       duration = elapsed, query = query,
                       echoedFilters = \<lparr>e_brand = Some brand, e_category = Some category,
                                        e_minPrice = minPrice, e_maxPrice = maxPrice,
                                        e_inStock = inStock\<rparr>\<rparr>\<rparr>,
          logSearchAnalytics query popularSearches))"

section \<open>Search service and result cache\<close>

text \<open>\<open>v || d\<close> on a value that may be absent: an absent or falsy value gives \<open>d\<close>.\<close>

definition intOr :: "int option \<Rightarrow> int \<Rightarrow> int" where
  "intOr v d = (case v of None \<Rightarrow> d | Some n \<Rightarrow> if n = 0 then d else n)"

definition stringOr :: "string option \<Rightarrow> string \<Rightarrow> string" where
  "stringOr v d = (case v of None \<Rightarrow> d | Some t \<Rightarrow> if t = [] then d else t)"

definition realOr :: "real option \<Rightarrow> real \<Rightarrow> real" where
  "realOr v d = (case v of None \<Rightarrow> d | Some x \<Rightarrow> if x = 0 then d else x)"

definition truthyString :: "string option \<Rightarrow> string option" where
  "truthyString v = (case v of None \<Rightarrow> None | Some t \<Rightarrow> if t = [] then None else Some t)"

definition truthyReal :: "real option \<Rightarrow> real option" where
  "truthyReal v = (case v of None \<Rightarrow> None | Some x \<Rightarrow> if x = 0 then None else Some x)"

text \<open>
  The cache key is the base64 text of the JSON of \<open>keyData\<close>, whose fields are written
  in one fixed order: the key is modelled by \<open>keyData\<close> itself. A missing upper price
  bound is the empty string there.
\<close>

record cache_key =
  k_query :: string
  k_brand :: string
  k_category :: string
  k_minPrice :: real
  k_maxPrice :: "real option"
  k_inStock :: bool
  k_sortBy :: string
  k_sortOrder :: string
  k_limit :: int
  k_offset :: int

definition generateCacheKey :: "search_params \<Rightarrow> cache_key" where
  "generateCacheKey searchParams =
     \<lparr>k_query = stringOr (sp_query searchParams) [],
      k_brand = stringOr (sp_brand searchParams) [],
      k_category = stringOr (sp_category searchParams) [],
      k_minPrice = realOr (sp_minPrice searchParams) 0,
      k_maxPrice = truthyReal (sp_maxPrice searchParams),
      k_inStock = withDefault False (sp_inStock searchParams),
      k_sortBy = stringOr (sp_sortBy searchParams) ''relevance'',
      k_sortOrder = stringOr (sp_sortOrder searchParams) ''desc'',
      k_limit = intOr (sp_limit searchParams) 50,
      k_offset = intOr (sp_offset searchParams) 0\<rparr>"

text \<open>
  An enhanced item; the two display strings the service also adds (\<open>price_display\<close>,
  \<open>discount_amount\<close>) are left out of the model.
\<close>

record enhanced_hit = search_hit +
  in_stock :: bool
  stock_status :: string

definition getStockStatus :: "int \<Rightarrow> string" where
  "getStockStatus quantity =
     (if quantity \<le> 0 then ''out_of_stock''
      else if quantity \<le> 5 then ''low_stock''
      else if quantity \<le> 20 then ''medium_stock''
      else ''in_stock'')"

definition enhanceSearchResults :: "search_hit response \<Rightarrow> enhanced_hit response" where
  "enhanceSearchResults searchResult =
     \<lparr>results = map (\<lambda>h. \<lparr>hit_product = hit_product h, searchScore = searchScore h,
                            hit_matches = hit_matches h,
                            in_stock = (stock_quantity (hit_product h) > 0),
                            stock_status = getStockStatus (stock_quantity (hit_product h))\<rparr>)
                  (results searchResult),
      metadata = metadata searchResult\<rparr>"

definition extractFilters :: "search_params \<Rightarrow> filters_echo" where
  "extractFilters searchParams =
     \<lparr>e_brand = truthyString (sp_brand searchParams),
      e_category = truthyString (sp_category searchParams),
      e_minPrice = realOr (sp_minPrice searchParams) 0,
      e_maxPrice = truthyReal (sp_maxPrice searchParams),
      e_inStock = withDefault False (sp_inStock searchParams)\<rparr>"

record cache_entry =
  data :: "enhanced_hit response"
  expiry :: int

type_synonym cache = "(cache_key \<times> cache_entry) list"

definition cacheExpiry :: int where
  "cacheExpiry = 5 * 60 * 1000"

text \<open>\<open>getFromCache\<close> at clock reading \<open>now\<close>: the answer and the cache it leaves.\<close>

definition getFromCache :: "int \<Rightarrow> cache_key \<Rightarrow> cache \<Rightarrow> enhanced_hit response option \<times> cache" where
  "getFromCache now key searchCache =
     (case map_of searchCache key of
        None \<Rightarrow> (None, searchCache)
      | Some cached \<Rightarrow>
          if now > expiry cached then (None, AList.delete key searchCache)
          else (Some (data cached), searchCache))"

definition clearExpiredCache :: "int \<Rightarrow> cache \<Rightarrow> cache" where
  "clearExpiredCache now searchCache = filter (\<lambda>kv. \<not> now > expiry (snd kv)) searchCache"

definition setCache :: "int \<Rightarrow> cache_key \<Rightarrow> enhanced_hit response \<Rightarrow> cache \<Rightarrow> cache" where
  "setCache now key d searchCache =
     (let cleaned = (if length searchCache > 100 then clearExpiredCache now searchCache
                     else searchCache)
      in AList.update key \<lparr>data = d, expiry = now + cacheExpiry\<rparr> cleaned)"

text \<open>
  The state of the service: its cache and the popularity map of its engine. The clock is
  read at the cache lookup and again when a result is stored; \<open>elapsed\<close> is the duration
  written into the metadata.
\<close>

record service_state =
  searchCache :: cache
  popularSearches :: popular

record clock =
  t_lookup :: int
  t_store :: int
  elapsed :: int

datatype error = SearchFailed

text \<open>The \<open>emptyResult\<close> object that \<open>searchProducts\<close> builds when the repository has no product.\<close>

definition emptyResult :: "clock \<Rightarrow> search_params \<Rightarrow> enhanced_hit response" where
  "emptyResult clk searchParams =
     \<lparr>results = [],
      metadata = \<lparr>total = 0, limit = intOr (sp_limit searchParams) 50,
                  offset = intOr (sp_offset searchParams) 0,
                  hasNext = False, hasPrev = False,
                  duration = elapsed clk,
                  query = stringOr (sp_query searchParams) [],
                  echoedFilters = extractFilters searchParams\<rparr>\<rparr>"

text \<open>
  \<open>searchProducts\<close>. The repository's answer to \<open>getProductsForSearch\<close> is a parameter:
  \<open>None\<close> when the repository reports no success (the service throws), the product list
  otherwise.
\<close>

definition searchProducts ::
  "fuse \<Rightarrow> clock \<Rightarrow> product list option \<Rightarrow> search_params \<Rightarrow> service_state
     \<Rightarrow> (error + enhanced_hit response) \<times> service_state" where
  "searchProducts fuseSearch clk repository searchParams st =
     (let cacheKey = generateCacheKey searchParams;
          (cachedResult, cache1) = getFromCache (t_lookup clk) cacheKey (searchCache st)
      in case cachedResult of
           Some r \<Rightarrow> (Inr r, st\<lparr>searchCache := cache1\<rparr>)
         | None \<Rightarrow>
             (case repository of
                None \<Rightarrow> (Inl SearchFailed, st\<lparr>searchCache := cache1\<rparr>)
              | Some products \<Rightarrow>
                  if products = []
                  then (Inr (emptyResult clk searchParams),
                        st\<lparr>searchCache :=
                             setCache (t_store clk) cacheKey (emptyResult clk searchParams) cache1\<rparr>)
                  else (let (searchResult, popular1) =
                              search fuseSearch (elapsed clk) products searchParams
                                (popularSearches st);
                            enhancedResult = enhanceSearchResults searchResult
                        in (Inr enhancedResult,
                            \<lparr>searchCache = setCache (t_store clk) cacheKey enhancedResult cache1,
                             popularSearches = popular1\<rparr>))))"

section \<open>API layer: the paging parameters of the search route\<close>

text \<open>
  A raw query-string parameter: absent, the text of an integer, or any other text, which
  carries what \<open>parseInt\<close> would read from it (\<open>None\<close> for \<open>NaN\<close>).
\<close>

datatype raw_param = Absent | IntText int | OtherText "int option"

text \<open>
  \<open>query(p).optional().isInt({min, max})\<close> of the route's validator. Of the validator's
  chains only the two for \<open>limit\<close> and \<open>offset\<close> are modelled.
\<close>

definition isIntBetween :: "int \<Rightarrow> int option \<Rightarrow> raw_param \<Rightarrow> bool" where
  "isIntBetween lo hi v =
     (case v of
        Absent \<Rightarrow> True
      | IntText n \<Rightarrow> lo \<le> n \<and> (case hi of None \<Rightarrow> True | Some h \<Rightarrow> n \<le> h)
      | OtherText r \<Rightarrow> False)"

definition validateProductSearch :: "raw_param \<Rightarrow> raw_param \<Rightarrow> bool" where
  "validateProductSearch rawLimit rawOffset =
     (isIntBetween 1 (Some 100) rawLimit \<and> isIntBetween 0 None rawOffset)"

definition parseInt :: "raw_param \<Rightarrow> int option" where
  "parseInt v = (case v of Absent \<Rightarrow> None | IntText n \<Rightarrow> Some n | OtherText r \<Rightarrow> r)"

text \<open>The controller's \<open>limit\<close> and \<open>offset\<close> of \<open>searchParams\<close>.\<close>

definition controllerLimit :: "raw_param \<Rightarrow> int" where
  "controllerLimit rawLimit = min (intOr (parseInt rawLimit) 50) 100"

definition controllerOffset :: "raw_param \<Rightarrow> int" where
  "controllerOffset rawOffset = intOr (parseInt rawOffset) 0"

text \<open>
  The route \<open>GET /search\<close>: the validator answers 400 before the controller runs, or the
  controller hands its limit and offset to the service.
\<close>

datatype route_outcome = Rejected400 | Handed int int

definition searchRoute :: "raw_param \<Rightarrow> raw_param \<Rightarrow> route_outcome" where
  "searchRoute rawLimit rawOffset =
     (if validateProductSearch rawLimit rawOffset
      then Handed (controllerLimit rawLimit) (controllerOffset rawOffset)
      else Rejected400)"

section \<open>Sample data\<close>

text \<open>Concrete catalog items, requests and library answers on which the theorems are run.\<close>

definition exBrand :: entity where
  "exBrand = \<lparr>ref_id = ''b1'', ref_name = ''Google'', ref_slug = ''google''\<rparr>"

definition exProduct :: product where
  "exProduct =
     \<lparr>pid = ''p1'', name = ''Pixel 8'', model = None, description = None,
      brand = Some exBrand, category = None, price = 699, stock_quantity = 5,
      status = Active, is_featured = False, is_bestseller = False, average_rating = 0,
      created_at = 0, item_keywords = []\<rparr>"

definition exFeatured :: product where
  "exFeatured = exProduct\<lparr>pid := ''p2'', is_featured := True\<rparr>"

definition exInactive :: product where
  "exInactive = exProduct\<lparr>pid := ''p3'', status := Inactive\<rparr>"

definition exFilters :: filters where
  "exFilters =
     \<lparr>f_brand = ''google'', f_category = [], f_minPrice = 0, f_maxPrice = Some 1000,
      f_inStock = True\<rparr>"

definition noParams :: search_params where
  "noParams =
     \<lparr>sp_query = None, sp_brand = None, sp_category = None, sp_minPrice = None,
      sp_maxPrice = None, sp_inStock = None, sp_sortBy = None, sp_sortOrder = None,
      sp_limit = None, sp_offset = None\<rparr>"

text \<open>A library answer that reports every product with the same score.\<close>

definition exFuse :: fuse where
  "exFuse products q =
     map (\<lambda>ip. \<lparr>fr_item = snd ip, fr_refIndex = fst ip, fr_score = 1 / 4, fr_matches = []\<rparr>)
       (enumerate 0 products)"

definition exFuzzy :: match_record where
  "exFuzzy =
     \<lparr>item = exProduct, score = 1 / 4, matches = [(''description'', ''phone'')],
      algorithm = ''fuzzy'', refIndex = Some 0\<rparr>"

definition exExact :: match_record where
  "exExact =
     \<lparr>item = exProduct, score = 9 / 10, matches = [(''name'', ''Pixel 8'')],
      algorithm = ''exact'', refIndex = None\<rparr>"

definition exClock :: clock where
  "exClock = \<lparr>t_lookup = 301001, t_store = 301002, elapsed = 1\<rparr>"

definition exState :: service_state where
  "exState = \<lparr>searchCache = [], popularSearches = []\<rparr>"

definition exPixel :: search_params where
  "exPixel = noParams\<lparr>sp_query := Some ''pixel''\<rparr>"

definition exIphone :: search_params where
  "exIphone = noParams\<lparr>sp_query := Some ''iphone''\<rparr>"

text \<open>A result stored at clock reading 1000 under the key of \<open>exPixel\<close>.\<close>

definition exStale :: service_state where
  "exStale =
     \<lparr>searchCache = setCache 1000 (generateCacheKey exPixel) (emptyResult exClock exPixel) [],
      popularSearches = []\<rparr>"

text \<open>Two scored records that differ in stock and in score.\<close>

definition exLowStock :: match_record where
  "exLowStock =
     \<lparr>item = exProduct\<lparr>stock_quantity := 5\<rparr>, score = 1 / 2, matches = [],
      algorithm = ''exact'', refIndex = None\<rparr>"

definition exHighStock :: match_record where
  "exHighStock =
     \<lparr>item = exProduct\<lparr>pid := ''p4'', stock_quantity := 50\<rparr>, score = 9 / 10, matches = [],
      algorithm = ''exact'', refIndex = None\<rparr>"

text \<open>Two match records with the same query-derived score, one for a featured item.\<close>

definition exFeaturedRec :: match_record where
  "exFeaturedRec =
     \<lparr>item = exFeatured, score = 7 / 10, matches = [(''brand'', ''Google'')],
      algorithm = ''exact'', refIndex = None\<rparr>"

definition exPlainRec :: match_record where
  "exPlainRec =
     \<lparr>item = exProduct, score = 7 / 10, matches = [(''brand'', ''Google'')],
      algorithm = ''exact'', refIndex = None\<rparr>"

definition exBuds :: product where
  "exBuds = exProduct\<lparr>pid := ''p5'', name := ''Pixel Buds''\<rparr>"

text \<open>The two items as the text search hands them to the library, keywords attached.\<close>

definition exSearchable :: "product list" where
  "exSearchable = map (\<lambda>p. p\<lparr>item_keywords := generateKeywords p\<rparr>) [exProduct, exBuds]"

text \<open>
  The library's answer for these two items and the query \<open>pixelbud\<close>, as Fuse 6
  computes it under the constructor's options, best match first and with the scores
  rounded to three decimals. On the name, \<open>Pixel Buds\<close> matches with one error (score
  0.125) and \<open>Pixel 8\<close> with three (0.375); both match the keyword \<open>pixel\<close> with
  three errors. No other answer of the library is recorded here: the empty list stands
  for all of them.
\<close>

definition exFuseRecorded :: fuse where
  "exFuseRecorded products q =
     (if q = ''pixelbud'' \<and> products = exSearchable
      then [\<lparr>fr_item = products ! 1, fr_refIndex = 1, fr_score = 571 / 1000,
             fr_matches = [(''name'', ''Pixel Buds''), (''keywords'', ''pixel'')]\<rparr>,
            \<lparr>fr_item = products ! 0, fr_refIndex = 0, fr_score = 713 / 1000,
             fr_matches = [(''name'', ''Pixel 8''), (''keywords'', ''pixel'')]\<rparr>]
      else [])"

section \<open>Proof invariants\<close>

text \<open>
  The state of the merge after the records \<open>xs\<close> have been fed to it: one record per item
  id, and each is the first record of its id with the largest score of that id.
\<close>

definition mergedInv :: "match_record list \<Rightarrow> match_record list \<Rightarrow> bool" where
  "mergedInv xs out \<longleftrightarrow>
     distinct (map (\<lambda>r. pid (item r)) out)
     \<and> set (map (\<lambda>r. pid (item r)) out) = set (map (\<lambda>r. pid (item r)) xs)
     \<and> (\<forall>r \<in> set out. \<exists>first.
           find (\<lambda>x. pid (item x) = pid (item r)) xs = Some first
           \<and> r = first\<lparr>score := Max (score ` {x \<in> set xs. pid (item x) = pid (item r)})\<rparr>)"

text \<open>
  Two stages of \<open>search\<close> under names of their own: the match records before scoring,
  and the scored and sorted records of which the page is a slice.
\<close>

definition textResults :: "fuse \<Rightarrow> product list \<Rightarrow> search_params \<Rightarrow> match_record list" where
  "textResults fuseSearch products searchParams =
   (let query = withDefault [] (sp_query searchParams);
        filteredProducts = applyBasicFilters products
            \<lparr>f_brand = withDefault [] (sp_brand searchParams),
             f_category = withDefault [] (sp_category searchParams),
             f_minPrice = withDefault 0 (sp_minPrice searchParams),
             f_maxPrice = sp_maxPrice searchParams,
             f_inStock = withDefault False (sp_inStock searchParams)\<rparr>
    in if query \<noteq> [] \<and> length (trim query) > 0
             then performTextSearch fuseSearch filteredProducts (trim query)
             else map (\<lambda>product. \<lparr>item = product, score = 1, matches = [], algorithm = [],
                                   refIndex = None\<rparr>) filteredProducts)"

definition rankedResults :: "fuse \<Rightarrow> product list \<Rightarrow> search_params \<Rightarrow> match_record list" where
  "rankedResults fuseSearch products searchParams =
     sortResults (applyAdvancedScoring (textResults fuseSearch products searchParams))
       (withDefault ''relevance'' (sp_sortBy searchParams))
       (withDefault ''desc'' (sp_sortOrder searchParams))"

text \<open>What \<open>searchProducts\<close> computes when the cache has no live entry for the request.\<close>

definition freshResult ::
  "fuse \<Rightarrow> clock \<Rightarrow> product list \<Rightarrow> search_params \<Rightarrow> popular \<Rightarrow> enhanced_hit response" where
  "freshResult fuseSearch clk products searchParams popular0 =
     (if products = [] then emptyResult clk searchParams
      else enhanceSearchResults
             (fst (search fuseSearch (elapsed clk) products searchParams popular0)))"

section \<open>Filter Stage: the survivors are exactly the matching candidates\<close>

lemma keepsProduct_iff: "keepsProduct f p = satisfiesFilterSpec f p"
  by (auto simp: keepsProduct_def satisfiesFilterSpec_def brandMatches_def categoryMatches_def
      priceInRange_def split: option.splits)

text \<open>
  Claim C9. For every candidate list and filter set, \<open>applyBasicFilters\<close> returns exactly
  the candidates (in their order) that are active, match the brand and the category (by
  slug) where one is asked for, have their price in the closed range from the minimum to the maximum,
  and have positive stock where only stocked items are asked for. When no candidate
  qualifies the answer is the empty list: the function has no error outcome.
\<close>

theorem applyBasicFilters_exact_subset:
  "applyBasicFilters candidates f = filter (satisfiesFilterSpec f) candidates
   \<and> set (applyBasicFilters candidates f) = {p \<in> set candidates. satisfiesFilterSpec f p}
   \<and> ((\<forall>p \<in> set candidates. \<not> satisfiesFilterSpec f p)
        \<longrightarrow> applyBasicFilters candidates f = [])"
proof -
  have eq: "keepsProduct f = satisfiesFilterSpec f"
    by (rule ext) (rule keepsProduct_iff)
  show ?thesis
    unfolding applyBasicFilters_def eq by (auto simp: filter_empty_conv)
qed

theorem applyBasicFilters_exact_subset_witness:
  "\<not> satisfiesFilterSpec exFilters exInactive
   \<and> applyBasicFilters [exInactive] exFilters = []
   \<and> satisfiesFilterSpec exFilters exProduct
   \<and> applyBasicFilters [exProduct, exInactive] exFilters = [exProduct]"
  using applyBasicFilters_exact_subset[of "[exInactive]" exFilters]
    applyBasicFilters_exact_subset[of "[exProduct, exInactive]" exFilters]
  by (simp add: satisfiesFilterSpec_def brandMatches_def categoryMatches_def priceInRange_def
      exFilters_def exProduct_def exInactive_def exBrand_def)

section \<open>Merge: the first record survives, with the best score\<close>

lemma map_other_id:
  "i \<notin> set (map (\<lambda>r. pid (item r)) es) \<Longrightarrow>
   map (\<lambda>e. if pid (item e) = i then g e else e) es = es"
  by (induction es) auto

lemma mergeResult_distinct:
  "distinct (map (\<lambda>r. pid (item r)) es) \<Longrightarrow>
   mergeResult x es =
     (if pid (item x) \<in> set (map (\<lambda>r. pid (item r)) es)
      then map (\<lambda>e. if pid (item e) = pid (item x)
                     then e\<lparr>score := max (score e) (score x)\<rparr> else e) es
      else es @ [x])"
proof (induction es)
  case Nil
  show ?case by simp
next
  case (Cons e es)
  show ?case
  proof (cases "pid (item e) = pid (item x)")
    case True
    with Cons.prems have "pid (item x) \<notin> set (map (\<lambda>r. pid (item r)) es)" by auto
    from map_other_id[OF this] True show ?thesis by simp
  next
    case False
    with Cons show ?thesis by simp
  qed
qed

lemma find_Some_mem: "find P xs = Some a \<Longrightarrow> a \<in> set xs \<and> P a"
  by (induction xs) (auto split: if_splits)

lemma find_None_append: "find P xs = None \<Longrightarrow> find P (xs @ ys) = find P ys"
  by (induction xs) (auto split: if_splits)

lemma find_Some_append: "find P xs = Some a \<Longrightarrow> find P (xs @ ys) = Some a"
  by (induction xs) (auto split: if_splits)

lemma Max_scores_snoc:
  assumes "f \<in> set xs" "pid (item f) = i"
  shows "Max (score ` {y \<in> set (xs @ [x]). pid (item y) = i}) =
         (if pid (item x) = i then max (Max (score ` {y \<in> set xs. pid (item y) = i})) (score x)
          else Max (score ` {y \<in> set xs. pid (item y) = i}))"
proof (cases "pid (item x) = i")
  case True
  have fin: "finite (score ` {y \<in> set xs. pid (item y) = i})" by simp
  have ne: "score ` {y \<in> set xs. pid (item y) = i} \<noteq> {}" using assms by auto
  have "{y \<in> set (xs @ [x]). pid (item y) = i} = insert x {y \<in> set xs. pid (item y) = i}"
    using True by auto
  then have "Max (score ` {y \<in> set (xs @ [x]). pid (item y) = i})
             = Max (insert (score x) (score ` {y \<in> set xs. pid (item y) = i}))" by simp
  also have "\<dots> = max (score x) (Max (score ` {y \<in> set xs. pid (item y) = i}))"
    using fin ne by (rule Max_insert)
  finally show ?thesis using True by (simp add: max.commute)
next
  case False
  then have "{y \<in> set (xs @ [x]). pid (item y) = i} = {y \<in> set xs. pid (item y) = i}" by auto
  with False show ?thesis by simp
qed

lemma mergedInv_step:
  assumes inv: "mergedInv xs out"
  shows "mergedInv (xs @ [x]) (mergeResult x out)"
proof -
  let ?id = "\<lambda>r. pid (item r)"
  from inv have dist: "distinct (map ?id out)"
    and ids: "set (map ?id out) = set (map ?id xs)"
    and recs: "\<And>r. r \<in> set out \<Longrightarrow> \<exists>first. find (\<lambda>x. ?id x = ?id r) xs = Some first
           \<and> r = first\<lparr>score := Max (score ` {x \<in> set xs. ?id x = ?id r})\<rparr>"
    unfolding mergedInv_def by blast+
  note mr = mergeResult_distinct[OF dist, of x]
  show ?thesis
  proof (cases "?id x \<in> set (map ?id out)")
    case True
    let ?upd = "\<lambda>e. if ?id e = ?id x then e\<lparr>score := max (score e) (score x)\<rparr> else e"
    from mr True have out': "mergeResult x out = map ?upd out" by simp
    have idmap: "map ?id (map ?upd out) = map ?id out" by (induction out) auto
    have d': "distinct (map ?id (mergeResult x out))" unfolding out' idmap using dist .
    have "set (map ?id (xs @ [x])) = set (map ?id out)" using ids True by auto
    then have s': "set (map ?id (mergeResult x out)) = set (map ?id (xs @ [x]))"
      unfolding out' idmap by simp
    have r': "\<exists>first. find (\<lambda>y. ?id y = ?id r) (xs @ [x]) = Some first
           \<and> r = first\<lparr>score := Max (score ` {y \<in> set (xs @ [x]). ?id y = ?id r})\<rparr>"
      if "r \<in> set (mergeResult x out)" for r
    proof -
      from that out' obtain e where e: "e \<in> set out" "r = ?upd e" by auto
      from recs[OF e(1)] obtain first where
        f: "find (\<lambda>y. ?id y = ?id e) xs = Some first"
        and ef: "e = first\<lparr>score := Max (score ` {y \<in> set xs. ?id y = ?id e})\<rparr>" by blast
      have idr: "?id r = ?id e" using e(2) by simp
      from find_Some_mem[OF f] have fm: "first \<in> set xs" "?id first = ?id e" by auto
      have M: "Max (score ` {y \<in> set (xs @ [x]). ?id y = ?id e}) =
         (if ?id x = ?id e then max (Max (score ` {y \<in> set xs. ?id y = ?id e})) (score x)
          else Max (score ` {y \<in> set xs. ?id y = ?id e}))"
        by (rule Max_scores_snoc[OF fm])
      have sc: "score e = Max (score ` {y \<in> set xs. ?id y = ?id e})"
        by (subst ef) simp
      have "r = first\<lparr>score := Max (score ` {y \<in> set (xs @ [x]). ?id y = ?id e})\<rparr>"
      proof (cases "?id e = ?id x")
        case True
        then have "r = e\<lparr>score := max (score e) (score x)\<rparr>" using e(2) by simp
        also have "\<dots> = first\<lparr>score := max (score e) (score x)\<rparr>" by (subst ef) simp
        finally show ?thesis using M True sc by simp
      next
        case False
        then have "r = e" using e(2) by simp
        then show ?thesis using M False ef by auto
      qed
      with find_Some_append[OF f] idr show ?thesis by simp
    qed
    show ?thesis unfolding mergedInv_def using d' s' r' by blast
  next
    case False
    from mr False have out': "mergeResult x out = out @ [x]" by simp
    have d': "distinct (map ?id (mergeResult x out))" using dist False out' by simp
    have s': "set (map ?id (mergeResult x out)) = set (map ?id (xs @ [x]))"
      using ids out' by auto
    have "?id x \<notin> ?id ` set xs" using False ids by simp
    then have "\<forall>y \<in> set xs. ?id y \<noteq> ?id x" by (metis imageI)
    then have nx: "find (\<lambda>y. ?id y = ?id x) xs = None"
      by (simp add: find_None_iff)
    have r': "\<exists>first. find (\<lambda>y. ?id y = ?id r) (xs @ [x]) = Some first
           \<and> r = first\<lparr>score := Max (score ` {y \<in> set (xs @ [x]). ?id y = ?id r})\<rparr>"
      if "r \<in> set (mergeResult x out)" for r
    proof (cases "r \<in> set out")
      case True
      from recs[OF True] obtain first where
        f: "find (\<lambda>y. ?id y = ?id r) xs = Some first"
        and ef: "r = first\<lparr>score := Max (score ` {y \<in> set xs. ?id y = ?id r})\<rparr>" by blast
      from True False have "?id x \<noteq> ?id r" by auto
      then have "{y \<in> set (xs @ [x]). ?id y = ?id r} = {y \<in> set xs. ?id y = ?id r}" by auto
      with find_Some_append[OF f] ef show ?thesis by simp
    next
      case False
      with that out' have rx: "r = x" by simp
      have "{y \<in> set (xs @ [x]). ?id y = ?id x} = {x}"
        using nx by (auto simp: find_None_iff)
      then have "x = x\<lparr>score := Max (score ` {y \<in> set (xs @ [x]). ?id y = ?id x})\<rparr>" by simp
      moreover have "find (\<lambda>y. ?id y = ?id x) (xs @ [x]) = Some x"
        using find_None_append[OF nx] by simp
      ultimately show ?thesis using rx by blast
    qed
    show ?thesis unfolding mergedInv_def using d' s' r' by blast
  qed
qed

lemma mergedInv_fold: "mergedInv xs (fold mergeResult xs [])"
proof (induction xs rule: rev_induct)
  case Nil
  show ?case by (simp add: mergedInv_def)
next
  case (snoc x xs)
  then show ?case using mergedInv_step by simp
qed

lemma combine_three:
  "combineSearchResults [a, b, c] = fold mergeResult (a @ b @ c) []"
  by (simp add: combineSearchResults_def)

text \<open>
  Claim C10. The merged output holds exactly one record for every item id that any of the
  three matchers produced. Each of its records is the first record with that id in the
  evaluation order fuzzy, exact, partial, with only the score replaced by the largest
  score among the records of that id: the item, the match explanations, the algorithm tag
  and the library index are those of that first record.
\<close>

theorem combine_keeps_first_record:
  "distinct (map (\<lambda>r. pid (item r)) (combineSearchResults [fuzzy, exact, partial]))
   \<and> set (map (\<lambda>r. pid (item r)) (combineSearchResults [fuzzy, exact, partial]))
       = set (map (\<lambda>r. pid (item r)) (fuzzy @ exact @ partial))
   \<and> (\<forall>r \<in> set (combineSearchResults [fuzzy, exact, partial]).
         \<exists>first. find (\<lambda>x. pid (item x) = pid (item r)) (fuzzy @ exact @ partial) = Some first
           \<and> r = first\<lparr>score := Max (score ` {x \<in> set (fuzzy @ exact @ partial).
                                                 pid (item x) = pid (item r)})\<rparr>
           \<and> item r = item first \<and> matches r = matches first
           \<and> algorithm r = algorithm first \<and> refIndex r = refIndex first)"
proof -
  let ?all = "fuzzy @ exact @ partial"
  let ?out = "combineSearchResults [fuzzy, exact, partial]"
  have inv: "mergedInv ?all ?out"
    unfolding combine_three by (rule mergedInv_fold)
  then have d: "distinct (map (\<lambda>r. pid (item r)) ?out)"
    and s: "set (map (\<lambda>r. pid (item r)) ?out) = set (map (\<lambda>r. pid (item r)) ?all)"
    unfolding mergedInv_def by blast+
  have r: "\<exists>first. find (\<lambda>x. pid (item x) = pid (item r)) ?all = Some first
           \<and> r = first\<lparr>score := Max (score ` {x \<in> set ?all. pid (item x) = pid (item r)})\<rparr>
           \<and> item r = item first \<and> matches r = matches first
           \<and> algorithm r = algorithm first \<and> refIndex r = refIndex first"
    if "r \<in> set ?out" for r
  proof -
    from inv that obtain first where
      f: "find (\<lambda>x. pid (item x) = pid (item r)) ?all = Some first"
      and e: "r = first\<lparr>score := Max (score ` {x \<in> set ?all. pid (item x) = pid (item r)})\<rparr>"
      unfolding mergedInv_def by blast
    have "item r = item first \<and> matches r = matches first
       \<and> algorithm r = algorithm first \<and> refIndex r = refIndex first"
      by (subst e, simp)+
    with f e show ?thesis by blast
  qed
  from d s r show ?thesis by blast
qed

theorem combine_keeps_first_record_witness:
  "combineSearchResults [[exFuzzy], [exExact, exFeaturedRec], [exPlainRec]]
     = [exFuzzy\<lparr>score := 9 / 10\<rparr>, exFeaturedRec]
   \<and> map (\<lambda>r. pid (item r)) (combineSearchResults [[exFuzzy], [exExact, exFeaturedRec], [exPlainRec]])
       = [''p1'', ''p2'']
   \<and> set (map (\<lambda>r. pid (item r)) ([exFuzzy] @ [exExact, exFeaturedRec] @ [exPlainRec]))
       = {''p1'', ''p2''}
   \<and> (\<exists>first. find (\<lambda>x. pid (item x) = pid (item (exFuzzy\<lparr>score := 9 / 10\<rparr>)))
                  ([exFuzzy] @ [exExact, exFeaturedRec] @ [exPlainRec]) = Some first
        \<and> matches (exFuzzy\<lparr>score := 9 / 10\<rparr>) = matches first
        \<and> algorithm (exFuzzy\<lparr>score := 9 / 10\<rparr>) = algorithm first)"
proof -
  have c: "combineSearchResults [[exFuzzy], [exExact, exFeaturedRec], [exPlainRec]]
     = [exFuzzy\<lparr>score := 9 / 10\<rparr>, exFeaturedRec]"
    by (simp add: combineSearchResults_def exFuzzy_def exExact_def exFeaturedRec_def
        exPlainRec_def exProduct_def exFeatured_def)
  have i: "map (\<lambda>r. pid (item r)) [exFuzzy\<lparr>score := 9 / 10\<rparr>, exFeaturedRec] = [''p1'', ''p2'']"
    by (simp add: exFuzzy_def exFeaturedRec_def exProduct_def exFeatured_def)
  have m: "exFuzzy\<lparr>score := 9 / 10\<rparr>
           \<in> set (combineSearchResults [[exFuzzy], [exExact, exFeaturedRec], [exPlainRec]])"
    unfolding c by simp
  note t = combine_keeps_first_record[of "[exFuzzy]" "[exExact, exFeaturedRec]" "[exPlainRec]"]
  from t have s: "set (map (\<lambda>r. pid (item r))
                     (combineSearchResults [[exFuzzy], [exExact, exFeaturedRec], [exPlainRec]]))
       = set (map (\<lambda>r. pid (item r)) ([exFuzzy] @ [exExact, exFeaturedRec] @ [exPlainRec]))"
    by blast
  from t m have e: "\<exists>first. find (\<lambda>x. pid (item x) = pid (item (exFuzzy\<lparr>score := 9 / 10\<rparr>)))
                  ([exFuzzy] @ [exExact, exFeaturedRec] @ [exPlainRec]) = Some first
        \<and> matches (exFuzzy\<lparr>score := 9 / 10\<rparr>) = matches first
        \<and> algorithm (exFuzzy\<lparr>score := 9 / 10\<rparr>) = algorithm first"
    by blast
  have s': "set (map (\<lambda>r. pid (item r)) ([exFuzzy] @ [exExact, exFeaturedRec] @ [exPlainRec]))
       = {''p1'', ''p2''}"
    using s unfolding c i by auto
  from c i s' e show ?thesis by (simp only: simp_thms)
qed

section \<open>Scoring: final scores stay in the unit interval\<close>

lemma set_insertBy: "set (insertBy cmp x ys) = insert x (set ys)"
  by (induction ys) auto

lemma set_arraySort: "set (arraySort cmp xs) = set xs"
  by (induction xs) (auto simp: arraySort_def set_insertBy)

lemma length_insertBy: "length (insertBy cmp x ys) = Suc (length ys)"
  by (induction ys) auto

lemma length_arraySort: "length (arraySort cmp xs) = length xs"
  by (induction xs) (auto simp: arraySort_def length_insertBy)

lemma set_slice_subset: "set (slice xs a b) \<subseteq> set xs"
proof -
  have "set (take n (drop k xs)) \<subseteq> set xs" for n k
    using set_take_subset[of n "drop k xs"] set_drop_subset[of k xs] by blast
  then show ?thesis by (simp add: slice_def Let_def)
qed

lemma mergeResult_nonneg:
  assumes "\<forall>r \<in> set es. 0 \<le> score r" and "0 \<le> score x"
  shows "\<forall>r \<in> set (mergeResult x es). 0 \<le> score r"
  using assms
proof (induction es)
  case Nil
  then show ?case by simp
next
  case (Cons e es)
  show ?case
  proof (cases "pid (item e) = pid (item x)")
    case True
    with Cons.prems show ?thesis by simp
  next
    case False
    with Cons show ?thesis by simp
  qed
qed

lemma fold_mergeResult_nonneg:
  "\<forall>r \<in> set xs. 0 \<le> score r \<Longrightarrow> \<forall>r \<in> set acc. 0 \<le> score r
   \<Longrightarrow> \<forall>r \<in> set (fold mergeResult xs acc). 0 \<le> score r"
proof (induction xs arbitrary: acc)
  case Nil
  then show ?case by simp
next
  case (Cons x xs)
  from Cons.prems have "\<forall>r \<in> set (mergeResult x acc). 0 \<le> score r"
    using mergeResult_nonneg[of acc x] by simp
  with Cons show ?case by simp
qed

lemma exactMatch_nonneg: "exactMatch q p = Some r \<Longrightarrow> 0 \<le> score r"
  by (auto simp: exactMatch_def split: prod.splits if_splits)

lemma partialMatch_nonneg: "partialMatch ws p = Some r \<Longrightarrow> 0 \<le> score r"
  by (auto simp: partialMatch_def split: prod.splits if_splits)

lemma map_filter_mem: "r \<in> set (List.map_filter f xs) \<Longrightarrow> \<exists>x \<in> set xs. f x = Some r"
  by (auto simp: List.map_filter_def)

lemma findExactMatches_nonneg: "\<forall>r \<in> set (findExactMatches ps q). 0 \<le> score r"
proof
  fix r
  assume "r \<in> set (findExactMatches ps q)"
  then have "\<exists>p \<in> set ps. exactMatch (toLowerCase q) p = Some r"
    unfolding findExactMatches_def by (rule map_filter_mem)
  then show "0 \<le> score r" using exactMatch_nonneg by blast
qed

lemma findPartialMatches_nonneg: "\<forall>r \<in> set (findPartialMatches ps q). 0 \<le> score r"
proof
  fix r
  assume "r \<in> set (findPartialMatches ps q)"
  then have "\<exists>p \<in> set ps. partialMatch (splitWhitespace (toLowerCase q)) p = Some r"
    unfolding findPartialMatches_def by (rule map_filter_mem)
  then show "0 \<le> score r" using partialMatch_nonneg by blast
qed

lemma fuzzySearch_nonneg:
  assumes "\<And>ps q. \<forall>r \<in> set (fuseSearch ps q). 0 \<le> fr_score r"
  shows "\<forall>r \<in> set (fuzzySearch fuseSearch ps q). 0 \<le> score r"
  using assms by (auto simp: fuzzySearch_def)

lemma performTextSearch_nonneg:
  assumes "\<And>ps q. \<forall>r \<in> set (fuseSearch ps q). 0 \<le> fr_score r"
  shows "\<forall>r \<in> set (performTextSearch fuseSearch ps q). 0 \<le> score r"
proof -
  let ?sp = "map (\<lambda>p. p\<lparr>item_keywords := generateKeywords p\<rparr>) ps"
  have "\<forall>r \<in> set (fuzzySearch fuseSearch ?sp q @ findExactMatches ?sp q @ findPartialMatches ?sp q).
          0 \<le> score r"
    using fuzzySearch_nonneg[OF assms] findExactMatches_nonneg findPartialMatches_nonneg
    by auto
  from fold_mergeResult_nonneg[OF this, of "[]"] show ?thesis
    by (simp add: performTextSearch_def combineSearchResults_def Let_def)
qed

lemma boostedScore_nonneg: "0 \<le> score r \<Longrightarrow> 0 \<le> boostedScore r"
  by (simp add: boostedScore_def Let_def)

lemma applyAdvancedScoring_bounds:
  assumes "\<forall>r \<in> set rs. 0 \<le> score r"
  shows "\<forall>r \<in> set (applyAdvancedScoring rs). 0 \<le> score r \<and> score r \<le> 1"
  using assms boostedScore_nonneg by (auto simp: applyAdvancedScoring_def)

lemma set_sortResults: "set (sortResults rs k ord) = set rs"
  by (simp add: sortResults_def Let_def set_arraySort)

lemma length_sortResults: "length (sortResults rs k ord) = length rs"
  by (simp add: sortResults_def Let_def length_arraySort)

lemma search_results:
  "results (fst (search fuseSearch e products sp pop)) =
     map (\<lambda>result. \<lparr>hit_product = item result, searchScore = score result,
                      hit_matches = matches result\<rparr>)
       (slice (rankedResults fuseSearch products sp) (withDefault 0 (sp_offset sp))
          (withDefault 0 (sp_offset sp) + withDefault 50 (sp_limit sp)))"
  by (simp add: search_def rankedResults_def textResults_def Let_def)

lemma search_metadata:
  "metadata (fst (search fuseSearch e products sp pop)) =
     \<lparr>total = int (length (rankedResults fuseSearch products sp)),
      limit = withDefault 50 (sp_limit sp), offset = withDefault 0 (sp_offset sp),
      hasNext = (withDefault 0 (sp_offset sp) + withDefault 50 (sp_limit sp)
                   < int (length (rankedResults fuseSearch products sp))),
      hasPrev = (withDefault 0 (sp_offset sp) > 0),
      duration = e, query = withDefault [] (sp_query sp),
      echoedFilters = \<lparr>e_brand = Some (withDefault [] (sp_brand sp)),
                        e_category = Some (withDefault [] (sp_category sp)),
                        e_minPrice = withDefault 0 (sp_minPrice sp),
                        e_maxPrice = sp_maxPrice sp,
                        e_inStock = withDefault False (sp_inStock sp)\<rparr>\<rparr>"
  by (simp add: search_def rankedResults_def textResults_def Let_def)

lemma search_popular:
  "snd (search fuseSearch e products sp pop) = logSearchAnalytics (withDefault [] (sp_query sp)) pop"
  by (simp add: search_def Let_def)

lemma textResults_nonneg:
  assumes "\<And>ps q. \<forall>r \<in> set (fuseSearch ps q). 0 \<le> fr_score r"
  shows "\<forall>r \<in> set (textResults fuseSearch products sp). 0 \<le> score r"
  using performTextSearch_nonneg[OF assms] by (auto simp: textResults_def Let_def)

lemma rankedResults_bounds:
  assumes "\<And>ps q. \<forall>r \<in> set (fuseSearch ps q). 0 \<le> fr_score r"
  shows "\<forall>r \<in> set (rankedResults fuseSearch products sp). 0 \<le> score r \<and> score r \<le> 1"
  unfolding rankedResults_def set_sortResults
  by (rule applyAdvancedScoring_bounds[OF textResults_nonneg[OF assms]])

text \<open>
  Claim C5. Provided the fuzzy library reports no negative score, every item of every
  result of \<open>search\<close> carries a final score in the closed interval from 0 to 1,
  whatever the matchers produced and whichever boosts applied; the service's enhancement
  of the result leaves the scores as they are.
\<close>

theorem final_score_in_unit_interval:
  assumes library: "\<And>ps q. \<forall>r \<in> set (fuseSearch ps q). 0 \<le> fr_score r"
  shows "(\<forall>h \<in> set (results (fst (search fuseSearch e products sp pop))).
            0 \<le> searchScore h \<and> searchScore h \<le> 1)
       \<and> (\<forall>h \<in> set (results (enhanceSearchResults (fst (search fuseSearch e products sp pop)))).
            0 \<le> searchScore h \<and> searchScore h \<le> 1)"
proof -
  have a: "0 \<le> searchScore h \<and> searchScore h \<le> 1"
    if "h \<in> set (results (fst (search fuseSearch e products sp pop)))" for h
  proof -
    from that obtain r where "r \<in> set (rankedResults fuseSearch products sp)"
      and "searchScore h = score r"
      unfolding search_results using set_slice_subset by fastforce
    with rankedResults_bounds[OF library] show ?thesis by auto
  qed
  have b: "0 \<le> searchScore h \<and> searchScore h \<le> 1"
    if "h \<in> set (results (enhanceSearchResults (fst (search fuseSearch e products sp pop))))"
    for h
  proof -
    from that obtain h0 where "h0 \<in> set (results (fst (search fuseSearch e products sp pop)))"
      and "searchScore h = searchScore h0"
      by (auto simp: enhanceSearchResults_def)
    with a show ?thesis by simp
  qed
  from a b show ?thesis by blast
qed

lemma exFuse_nonneg: "\<forall>r \<in> set (exFuse ps q). 0 \<le> fr_score r"
  by (simp add: exFuse_def)

theorem final_score_in_unit_interval_witness:
  "list_all (\<lambda>h. 0 \<le> searchScore h \<and> searchScore h \<le> 1)
     (results (fst (search exFuse 0 [exProduct, exFeatured]
                      (noParams\<lparr>sp_query := Some ''pixel''\<rparr>) [])))
   \<and> map searchScore (results (fst (search exFuse 0 [exProduct, exFeatured]
                      (noParams\<lparr>sp_query := Some ''pixel''\<rparr>) []))) = [9 / 10, 1]"
proof -
  have n: "map searchScore (results (fst (search exFuse 0 [exProduct, exFeatured]
                      (noParams\<lparr>sp_query := Some ''pixel''\<rparr>) []))) = [9 / 10, 1]"
    by code_simp
  from final_score_in_unit_interval[of exFuse 0 "[exProduct, exFeatured]"
      "noParams\<lparr>sp_query := Some ''pixel''\<rparr>" "[]"] exFuse_nonneg n
  show ?thesis by (simp add: list_all_iff)
qed

section \<open>Result cache: expired entries are recomputed\<close>

lemma map_of_setCache:
  "map_of (setCache now key d c) key = Some \<lparr>data = d, expiry = now + cacheExpiry\<rparr>"
  by (simp add: setCache_def Let_def update_conv')

lemma getFromCache_expired:
  "map_of c key = Some entry \<Longrightarrow> now > expiry entry \<Longrightarrow>
   getFromCache now key c = (None, AList.delete key c)"
  by (simp add: getFromCache_def)

lemma searchProducts_miss:
  assumes "getFromCache (t_lookup clk) (generateCacheKey sp) (searchCache st) = (None, c1)"
  shows "searchProducts f clk (Some products) sp st =
     (Inr (freshResult f clk products sp (popularSearches st)),
      \<lparr>searchCache = setCache (t_store clk) (generateCacheKey sp)
                       (freshResult f clk products sp (popularSearches st)) c1,
       popularSearches = (if products = [] then popularSearches st
                          else snd (search f (elapsed clk) products sp (popularSearches st)))\<rparr>)"
  using assms
  by (cases "search f (elapsed clk) products sp (popularSearches st)")
     (simp add: searchProducts_def freshResult_def Let_def)

lemma searchProducts_hit:
  assumes "getFromCache (t_lookup clk) (generateCacheKey sp) (searchCache st) = (Some r, c1)"
  shows "searchProducts f clk repository sp st = (Inr r, st\<lparr>searchCache := c1\<rparr>)"
  using assms by (simp add: searchProducts_def Let_def)

text \<open>
  Claim C7. Let the cache hold, under the key of a request, an entry stored at clock
  reading \<open>t0\<close>, so that its expiry is \<open>t0\<close> plus five minutes. A lookup at a later
  reading than that expiry finds nothing; \<open>searchProducts\<close> then answers, whenever the
  repository answers, with the freshly computed result and not with the stored one, and
  stores the fresh result under the key with an expiry five minutes after the reading at
  which it is stored.
\<close>

theorem expired_entry_is_recomputed:
  assumes stored: "map_of (searchCache st) (generateCacheKey sp)
                     = Some \<lparr>data = old, expiry = t0 + 5 * 60 * 1000\<rparr>"
      and late: "t_lookup clk > t0 + 5 * 60 * 1000"
  shows "fst (getFromCache (t_lookup clk) (generateCacheKey sp) (searchCache st)) = None
       \<and> fst (searchProducts f clk (Some products) sp st)
           = Inr (freshResult f clk products sp (popularSearches st))
       \<and> map_of (searchCache (snd (searchProducts f clk (Some products) sp st)))
            (generateCacheKey sp)
           = Some \<lparr>data = freshResult f clk products sp (popularSearches st),
                    expiry = t_store clk + 5 * 60 * 1000\<rparr>"
proof -
  have g: "getFromCache (t_lookup clk) (generateCacheKey sp) (searchCache st)
           = (None, AList.delete (generateCacheKey sp) (searchCache st))"
    using getFromCache_expired[OF stored] late by simp
  show ?thesis
    unfolding searchProducts_miss[OF g] g
    using map_of_setCache[of "t_store clk"] by (simp add: cacheExpiry_def)
qed

lemma exStale_stored:
  "map_of (searchCache exStale) (generateCacheKey exPixel)
     = Some \<lparr>data = emptyResult exClock exPixel, expiry = 1000 + 5 * 60 * 1000\<rparr>"
  using map_of_setCache[of 1000 "generateCacheKey exPixel" "emptyResult exClock exPixel" "[]"]
  by (simp add: exStale_def cacheExpiry_def)

theorem expired_entry_is_recomputed_witness:
  "t_lookup exClock > 1000 + 5 * 60 * 1000
   \<and> fst (getFromCache (t_lookup exClock) (generateCacheKey exPixel) (searchCache exStale)) = None
   \<and> fst (searchProducts exFuse exClock (Some [exProduct]) exPixel exStale)
       = Inr (freshResult exFuse exClock [exProduct] exPixel [])
   \<and> map searchScore (results (freshResult exFuse exClock [exProduct] exPixel [])) = [9 / 10]
   \<and> results (emptyResult exClock exPixel) = []"
proof -
  have late: "t_lookup exClock > 1000 + 5 * 60 * 1000" by (simp add: exClock_def)
  have pop: "popularSearches exStale = []" by (simp add: exStale_def)
  have ev: "map searchScore (results (freshResult exFuse exClock [exProduct] exPixel [])) = [9 / 10]"
    by code_simp
  from expired_entry_is_recomputed[OF exStale_stored late, of exFuse "[exProduct]"] late pop ev
  show ?thesis by (simp add: emptyResult_def)
qed

section \<open>Pagination metadata\<close>

lemma length_slice:
  assumes "0 \<le> off" and "0 \<le> lmt"
  shows "int (length (slice xs off (off + lmt))) =
         (if off \<ge> int (length xs) then 0 else min lmt (int (length xs) - off))"
  using assms by (auto simp: slice_def Let_def min_def)

lemma search_pagination_consistent:
  assumes "sp_offset sp = Some off" "sp_limit sp = Some lmt" "0 \<le> off" "0 \<le> lmt"
  shows "hasNext (metadata (fst (search f e ps sp pop)))
           = (off + lmt < total (metadata (fst (search f e ps sp pop))))
       \<and> hasPrev (metadata (fst (search f e ps sp pop))) = (off > 0)
       \<and> int (length (results (fst (search f e ps sp pop))))
           = (if off \<ge> total (metadata (fst (search f e ps sp pop))) then 0
              else min lmt (total (metadata (fst (search f e ps sp pop))) - off))"
  using assms length_slice[of off lmt "rankedResults f ps sp"]
  by (simp add: search_results search_metadata withDefault_def)

text \<open>
  Claim C6 (defect). On the service's short-circuit path, taken when the repository has no
  product, the metadata is written with \<open>hasPrev = false\<close> whatever the offset: for a
  request with limit 10 and offset 10 the answer has offset 10 and total 0, and
  \<open>hasPrev\<close> is false although the offset is positive. The engine's own path computes
  \<open>offset > 0\<close> (lemmas \<open>search_pagination_consistent\<close> and
  \<open>engine_hasPrev_on_empty_page\<close>).
\<close>

theorem emptyResult_hasPrev_is_false:
  "hasPrev (metadata (emptyResult clk sp)) = False
   \<and> offset (metadata (emptyResult clk sp)) = intOr (sp_offset sp) 0
   \<and> map_sum id (\<lambda>r. (offset (metadata r), hasPrev (metadata r), hasNext (metadata r),
                         total (metadata r), length (results r)))
         (fst (searchProducts f clk (Some [])
                 (noParams\<lparr>sp_limit := Some 10, sp_offset := Some 10\<rparr>)
                 \<lparr>searchCache = [], popularSearches = pop\<rparr>))
       = Inr (10, False, False, 0, 0)"
  by (simp add: searchProducts_def getFromCache_def emptyResult_def intOr_def Let_def)

lemma engine_hasPrev_on_empty_page:
  "hasPrev (metadata (fst (search f e [] (noParams\<lparr>sp_limit := Some 10, sp_offset := Some 10\<rparr>) pop)))
   \<and> total (metadata (fst (search f e [] (noParams\<lparr>sp_limit := Some 10, sp_offset := Some 10\<rparr>) pop))) = 0"
  by (simp add: search_metadata rankedResults_def textResults_def applyBasicFilters_def
      performTextSearch_def fuzzySearch_def length_sortResults applyAdvancedScoring_def
      withDefault_def noParams_def Let_def)

section \<open>Boost and default ordering\<close>

lemma boostedScore_featured:
  assumes "score a = score b" "is_featured (item a)" "\<not> is_featured (item b)"
    "is_bestseller (item a) = is_bestseller (item b)"
    "(average_rating (item a) > 4) = (average_rating (item b) > 4)"
    "(stock_quantity (item a) > 10) = (stock_quantity (item b) > 10)"
    "(stock_quantity (item a) \<le> 0) = (stock_quantity (item b) \<le> 0)"
  shows "boostedScore a = 12 / 10 * boostedScore b"
  using assms by (simp add: boostedScore_def Let_def)

lemma boostedScore_pos: "0 < score r \<Longrightarrow> 0 < boostedScore r"
  by (simp add: boostedScore_def Let_def)

lemma sortResults_pair_desc_relevance:
  assumes "score x < score y"
  shows "sortResults [y, x] ''relevance'' ''desc'' = [x, y]"
    and "sortResults [x, y] ''relevance'' ''desc'' = [x, y]"
  using assms by (simp_all add: sortResults_def arraySort_def comparison_def Let_def)

text \<open>
  Claim C2 (defect). Take two match records with the same positive query-derived score, one
  for a featured item and one for an item that is not featured, alike in every other boost
  condition, with no boosted score above 1. The featured record's final score is 1.2 times
  the other's. Under the relevance key with the default direction \<open>desc\<close> the comparator
  is \<open>(b.score - a.score) * -1\<close>, which orders by ascending score: whichever way the
  two records come in, the featured one is returned after the other one.
\<close>

theorem featured_item_sorted_last_by_default:
  assumes same: "score a = score b" and pos: "0 < score b"
    and feat: "is_featured (item a)" "\<not> is_featured (item b)"
    and others: "is_bestseller (item a) = is_bestseller (item b)"
      "(average_rating (item a) > 4) = (average_rating (item b) > 4)"
      "(stock_quantity (item a) > 10) = (stock_quantity (item b) > 10)"
      "(stock_quantity (item a) \<le> 0) = (stock_quantity (item b) \<le> 0)"
    and unclamped: "boostedScore a \<le> 1"
  shows "applyAdvancedScoring [a, b]
           = [a\<lparr>score := 12 / 10 * boostedScore b\<rparr>, b\<lparr>score := boostedScore b\<rparr>]
       \<and> sortResults (applyAdvancedScoring [a, b]) ''relevance'' ''desc''
           = [b\<lparr>score := boostedScore b\<rparr>, a\<lparr>score := 12 / 10 * boostedScore b\<rparr>]
       \<and> sortResults (applyAdvancedScoring [b, a]) ''relevance'' ''desc''
           = [b\<lparr>score := boostedScore b\<rparr>, a\<lparr>score := 12 / 10 * boostedScore b\<rparr>]"
proof -
  let ?A = "a\<lparr>score := 12 / 10 * boostedScore b\<rparr>"
  let ?B = "b\<lparr>score := boostedScore b\<rparr>"
  have ba: "boostedScore a = 12 / 10 * boostedScore b"
    by (rule boostedScore_featured[OF same feat others])
  have bpos: "0 < boostedScore b" by (rule boostedScore_pos[OF pos])
  have ble: "boostedScore b \<le> 1" using ba bpos unclamped by simp
  have sc: "applyAdvancedScoring [a, b] = [?A, ?B]" "applyAdvancedScoring [b, a] = [?B, ?A]"
    using ba ble unclamped by (simp_all add: applyAdvancedScoring_def min_def)
  have lt: "score ?B < score ?A" using bpos by simp
  show ?thesis
    unfolding sc
    using sortResults_pair_desc_relevance[OF lt] by simp
qed

theorem featured_item_sorted_last_by_default_witness:
  "sortResults (applyAdvancedScoring [exFeaturedRec, exPlainRec]) ''relevance'' ''desc''
     = [exPlainRec\<lparr>score := 7 / 10\<rparr>, exFeaturedRec\<lparr>score := 21 / 25\<rparr>]
   \<and> map (\<lambda>h. (pid (hit_product h), searchScore h))
         (results (fst (search exFuse 0 [exFeatured, exProduct]
                          (noParams\<lparr>sp_query := Some ''google''\<rparr>) [])))
       = [(''p1'', 7 / 10), (''p2'', 21 / 25)]"
proof -
  have b: "boostedScore exPlainRec = 7 / 10" "boostedScore exFeaturedRec = 21 / 25"
    by (simp_all add: boostedScore_def exPlainRec_def exFeaturedRec_def exProduct_def
        exFeatured_def)
  have e: "map (\<lambda>h. (pid (hit_product h), searchScore h))
         (results (fst (search exFuse 0 [exFeatured, exProduct]
                          (noParams\<lparr>sp_query := Some ''google''\<rparr>) [])))
       = [(''p1'', 7 / 10), (''p2'', 21 / 25)]"
    by code_simp
  have h: "score exFeaturedRec = score exPlainRec" "0 < score exPlainRec"
    "is_featured (item exFeaturedRec)" "\<not> is_featured (item exPlainRec)"
    "is_bestseller (item exFeaturedRec) = is_bestseller (item exPlainRec)"
    "(average_rating (item exFeaturedRec) > 4) = (average_rating (item exPlainRec) > 4)"
    "(stock_quantity (item exFeaturedRec) > 10) = (stock_quantity (item exPlainRec) > 10)"
    "(stock_quantity (item exFeaturedRec) \<le> 0) = (stock_quantity (item exPlainRec) \<le> 0)"
    by (simp_all add: exPlainRec_def exFeaturedRec_def exProduct_def exFeatured_def)
  have u: "boostedScore exFeaturedRec \<le> 1" by (simp add: b)
  from featured_item_sorted_last_by_default[OF h u]
  have "sortResults (applyAdvancedScoring [exFeaturedRec, exPlainRec]) ''relevance'' ''desc''
     = [exPlainRec\<lparr>score := boostedScore exPlainRec\<rparr>,
        exFeaturedRec\<lparr>score := 12 / 10 * boostedScore exPlainRec\<rparr>]"
    by (rule conjunct1[OF conjunct2])
  with e show ?thesis by (simp add: b)
qed

section \<open>Sort keys\<close>

lemma comparison_default:
  "k \<noteq> ''relevance'' \<Longrightarrow> k \<noteq> ''price'' \<Longrightarrow> k \<noteq> ''name'' \<Longrightarrow> k \<noteq> ''rating''
   \<Longrightarrow> comparison k = comparison ''relevance''"
  by (intro ext) (simp add: comparison_def)

text \<open>
  Claim C8 (defect). The comparator has cases for the keys relevance, price, name and
  rating only. The keys \<open>stock\<close> and \<open>date\<close>, which the route's validator accepts,
  reach the default case and are ordered exactly as relevance is: two records with stock
  5 and 50 come out as 50, 5 under \<open>stock\<close> ascending and as 5, 50 under \<open>stock\<close>
  descending, by their scores and not by their stock.
\<close>

theorem stock_and_date_keys_fall_back_to_relevance:
  "sortResults rs ''stock'' ord = sortResults rs ''relevance'' ord
   \<and> sortResults rs ''date'' ord = sortResults rs ''relevance'' ord
   \<and> map (\<lambda>r. stock_quantity (item r)) (sortResults [exLowStock, exHighStock] ''stock'' ''asc'')
       = [50, 5]
   \<and> map (\<lambda>r. stock_quantity (item r)) (sortResults [exHighStock, exLowStock] ''stock'' ''desc'')
       = [5, 50]"
proof -
  have "comparison ''stock'' = comparison ''relevance''"
    and "comparison ''date'' = comparison ''relevance''"
    by (simp_all add: comparison_default)
  then have a: "sortResults rs ''stock'' ord = sortResults rs ''relevance'' ord"
    and b: "sortResults rs ''date'' ord = sortResults rs ''relevance'' ord"
    by (simp_all add: sortResults_def)
  have c: "map (\<lambda>r. stock_quantity (item r)) (sortResults [exLowStock, exHighStock] ''stock'' ''asc'')
       = [50, 5]"
    by (simp add: sortResults_def arraySort_def comparison_def exLowStock_def exHighStock_def)
  have d: "map (\<lambda>r. stock_quantity (item r)) (sortResults [exHighStock, exLowStock] ''stock'' ''desc'')
       = [5, 50]"
    by (simp add: sortResults_def arraySort_def comparison_def exLowStock_def exHighStock_def)
  from a b c d show ?thesis by simp
qed

section \<open>Popularity tracker\<close>

lemma logSearchAnalytics_counts:
  assumes "q \<noteq> []"
  shows "map_of (logSearchAnalytics q pop) (trim (toLowerCase q))
           = Some ((case map_of pop (trim (toLowerCase q)) of None \<Rightarrow> 0 | Some c \<Rightarrow> c) + 1)"
    and "k \<noteq> trim (toLowerCase q) \<Longrightarrow> map_of (logSearchAnalytics q pop) k = map_of pop k"
  using assms by (simp_all add: logSearchAnalytics_def Let_def update_conv')

lemma searchProducts_hit_popular:
  assumes "fst (getFromCache (t_lookup clk) (generateCacheKey sp) (searchCache st)) \<noteq> None"
  shows "popularSearches (snd (searchProducts f clk repository sp st)) = popularSearches st"
proof -
  from assms obtain r c1 where
    "getFromCache (t_lookup clk) (generateCacheKey sp) (searchCache st) = (Some r, c1)"
    by (cases "getFromCache (t_lookup clk) (generateCacheKey sp) (searchCache st)") auto
  from searchProducts_hit[OF this] show ?thesis by simp
qed

lemma searchProducts_empty_popular:
  "popularSearches (snd (searchProducts f clk (Some []) sp st)) = popularSearches st"
  by (cases "getFromCache (t_lookup clk) (generateCacheKey sp) (searchCache st)")
     (simp add: searchProducts_def Let_def split: option.splits)

lemma engine_search_counts_query_once:
  assumes "sp_query sp = Some q" and "q \<noteq> []"
  shows "map_of (snd (search f e ps sp pop)) (trim (toLowerCase q))
        = Some ((case map_of pop (trim (toLowerCase q)) of None \<Rightarrow> 0 | Some c \<Rightarrow> c) + 1)"
    and "k \<noteq> trim (toLowerCase q) \<Longrightarrow> map_of (snd (search f e ps sp pop)) k = map_of pop k"
  using assms logSearchAnalytics_counts[where q=q and pop=pop]
  by (simp_all add: search_popular withDefault_def)

text \<open>
  Claim C3 (defect). The counter is raised inside the engine's \<open>search\<close> only
  (\<open>engine_search_counts_query_once\<close>), and the service returns before it calls the
  engine both when the cache answers and when the repository has no product
  (\<open>searchProducts_hit_popular\<close>, \<open>searchProducts_empty_popular\<close>). Three service
  searches for \<open>pixel\<close> and one for \<open>iphone\<close> within the life of the cached entries
  leave \<open>pixel\<close> at count 1, and a service search for \<open>pixel\<close> on an empty
  repository leaves no count at all, while the engine counts the same query when its own
  filter leaves no item, and counts 3 for three engine searches.
\<close>

theorem service_paths_skip_popularity_count:
  "getPopularSearches (popularSearches
     (snd (searchProducts exFuse exClock (Some [exProduct]) exIphone
     (snd (searchProducts exFuse exClock (Some [exProduct]) exPixel
     (snd (searchProducts exFuse exClock (Some [exProduct]) exPixel
     (snd (searchProducts exFuse exClock (Some [exProduct]) exPixel exState))))))))) 1
   = [(''pixel'', 1)]
   \<and> popularSearches (snd (searchProducts exFuse exClock (Some []) exPixel exState)) = []
   \<and> snd (search exFuse 0 [exInactive] exPixel []) = [(''pixel'', 1)]
   \<and> total (metadata (fst (search exFuse 0 [exInactive] exPixel []))) = 0
   \<and> getPopularSearches
        (snd (search exFuse 0 [exProduct] exIphone
        (snd (search exFuse 0 [exProduct] exPixel
        (snd (search exFuse 0 [exProduct] exPixel
        (snd (search exFuse 0 [exProduct] exPixel [])))))))) 1
      = [(''pixel'', 3)]"
  by code_simp

section \<open>Paging parameters\<close>

text \<open>
  Claim C4, as stated, fails: the route rejects a limit of 500 and an offset of -5 with
  status 400, and the engine, handed these values, uses and echoes them unchanged.
\<close>

theorem paging_out_of_range_counterexample:
  "searchRoute (IntText 500) Absent = Rejected400
   \<and> searchRoute Absent (IntText (- 5)) = Rejected400
   \<and> limit (metadata (fst (search exFuse 0 [exProduct]
        (noParams\<lparr>sp_limit := Some 500, sp_offset := Some (- 5)\<rparr>) []))) = 500
   \<and> offset (metadata (fst (search exFuse 0 [exProduct]
        (noParams\<lparr>sp_limit := Some 500, sp_offset := Some (- 5)\<rparr>) []))) = - 5"
  by (simp add: searchRoute_def validateProductSearch_def isIntBetween_def search_def Let_def
      withDefault_def noParams_def)

lemma route_handed_in_range:
  assumes "searchRoute rawLimit rawOffset = Handed l off"
  shows "1 \<le> l \<and> l \<le> 100 \<and> 0 \<le> off"
proof -
  from assms have v: "validateProductSearch rawLimit rawOffset"
    and l: "l = controllerLimit rawLimit" and off: "off = controllerOffset rawOffset"
    by (auto simp: searchRoute_def split: if_splits)
  from v have "1 \<le> controllerLimit rawLimit \<and> controllerLimit rawLimit \<le> 100"
    by (cases rawLimit)
       (auto simp: validateProductSearch_def isIntBetween_def controllerLimit_def parseInt_def
          intOr_def)
  moreover from v have "0 \<le> controllerOffset rawOffset"
    by (cases rawOffset)
       (auto simp: validateProductSearch_def isIntBetween_def controllerOffset_def parseInt_def
          intOr_def)
  ultimately show ?thesis using l off by simp
qed

lemma controllerLimit_le: "controllerLimit rawLimit \<le> 100"
  by (simp add: controllerLimit_def)

text \<open>
  Claim C4, amended. An absent limit or offset defaults to 50 or 0. The search route's
  validator rejects, with status 400, a limit that is not an integer from 1 to 100 and an
  offset that is not an integer from 0 on; every request it lets through reaches the
  service with a limit from 1 to 100 and an offset from 0 on, and the controller never
  hands on a limit above 100. The engine itself normalizes nothing: it takes the page
  window from the limit and the offset it is handed (50 and 0 when absent) and echoes
  them.
\<close>

theorem paging_is_validated_not_clamped:
  "(searchRoute rawLimit rawOffset = Handed l off \<longrightarrow> 1 \<le> l \<and> l \<le> 100 \<and> 0 \<le> off)
   \<and> (n < 1 \<or> 100 < n \<longrightarrow> searchRoute (IntText n) rawOffset = Rejected400)
   \<and> (m < 0 \<longrightarrow> searchRoute rawLimit (IntText m) = Rejected400)
   \<and> searchRoute (OtherText r) rawOffset = Rejected400
   \<and> searchRoute rawLimit (OtherText r) = Rejected400
   \<and> searchRoute Absent Absent = Handed 50 0
   \<and> controllerLimit rawLimit \<le> 100
   \<and> limit (metadata (fst (search f e ps sp pop))) = withDefault 50 (sp_limit sp)
   \<and> offset (metadata (fst (search f e ps sp pop))) = withDefault 0 (sp_offset sp)
   \<and> results (fst (search f e ps sp pop))
       = map (\<lambda>result. \<lparr>hit_product = item result, searchScore = score result,
                          hit_matches = matches result\<rparr>)
           (slice (rankedResults f ps sp) (withDefault 0 (sp_offset sp))
              (withDefault 0 (sp_offset sp) + withDefault 50 (sp_limit sp)))"
proof -
  have a: "searchRoute rawLimit rawOffset = Handed l off \<longrightarrow> 1 \<le> l \<and> l \<le> 100 \<and> 0 \<le> off"
    using route_handed_in_range by blast
  have b: "n < 1 \<or> 100 < n \<longrightarrow> searchRoute (IntText n) rawOffset = Rejected400"
    by (auto simp: searchRoute_def validateProductSearch_def isIntBetween_def)
  have c: "m < 0 \<longrightarrow> searchRoute rawLimit (IntText m) = Rejected400"
    by (auto simp: searchRoute_def validateProductSearch_def isIntBetween_def)
  have d: "searchRoute (OtherText r) rawOffset = Rejected400"
    "searchRoute rawLimit (OtherText r) = Rejected400"
    by (simp_all add: searchRoute_def validateProductSearch_def isIntBetween_def)
  have g: "searchRoute Absent Absent = Handed 50 0"
    by (simp add: searchRoute_def validateProductSearch_def isIntBetween_def
        controllerLimit_def controllerOffset_def parseInt_def intOr_def)
  have h: "limit (metadata (fst (search f e ps sp pop))) = withDefault 50 (sp_limit sp)"
    "offset (metadata (fst (search f e ps sp pop))) = withDefault 0 (sp_offset sp)"
    by (simp_all add: search_metadata)
  from a b c d g h controllerLimit_le[of rawLimit] search_results[of f e ps sp pop]
  show ?thesis by simp
qed

theorem paging_is_validated_not_clamped_witness:
  "searchRoute (IntText 20) (IntText 40) = Handed 20 40
   \<and> (100 :: int) < 500
   \<and> searchRoute (IntText 500) (IntText 40) = Rejected400
   \<and> (- 5 :: int) < 0
   \<and> searchRoute (IntText 20) (IntText (- 5)) = Rejected400
   \<and> limit (metadata (fst (search exFuse 0 [exProduct] noParams []))) = 50
   \<and> offset (metadata (fst (search exFuse 0 [exProduct] noParams []))) = 0"
proof -
  have h: "searchRoute (IntText 20) (IntText 40) = Handed 20 40"
    by (simp add: searchRoute_def validateProductSearch_def isIntBetween_def
        controllerLimit_def controllerOffset_def parseInt_def intOr_def)
  from paging_is_validated_not_clamped[where rawLimit="IntText 20" and rawOffset="IntText 40"
      and l=20 and off=40 and n=500 and m="- 5" and f=exFuse and e=0 and ps="[exProduct]"
      and sp=noParams and pop="[]"] h
  show ?thesis by (simp add: withDefault_def noParams_def)
qed

section \<open>Fuzzy matcher: the library score is handed on as it is\<close>

lemma exSearchable_fields:
  "pid (exSearchable ! 0) = ''p1''" "pid (exSearchable ! Suc 0) = ''p5''"
  "\<not> is_featured (exSearchable ! 0)" "\<not> is_featured (exSearchable ! Suc 0)"
  "\<not> is_bestseller (exSearchable ! 0)" "\<not> is_bestseller (exSearchable ! Suc 0)"
  "average_rating (exSearchable ! 0) = 0" "average_rating (exSearchable ! Suc 0) = 0"
  "stock_quantity (exSearchable ! 0) = 5" "stock_quantity (exSearchable ! Suc 0) = 5"
  by (simp_all add: exSearchable_def exProduct_def exBuds_def)

lemma exSearchable_only_fuzzy:
  "findExactMatches exSearchable ''pixelbud'' = []"
  "findPartialMatches exSearchable ''pixelbud'' = []"
  "trim ''pixelbud'' = ''pixelbud''"
  by code_simp+

lemma exSearchable_unfiltered:
  "applyBasicFilters [exProduct, exBuds]
     \<lparr>f_brand = [], f_category = [], f_minPrice = 0, f_maxPrice = None, f_inStock = False\<rparr>
   = [exProduct, exBuds]"
  by (simp add: applyBasicFilters_def keepsProduct_def exProduct_def exBuds_def)

lemma boostedScore_plain:
  "\<not> is_featured (item r) \<Longrightarrow> \<not> is_bestseller (item r) \<Longrightarrow> average_rating (item r) = 0
   \<Longrightarrow> stock_quantity (item r) = 5 \<Longrightarrow> boostedScore r = score r"
  by (simp add: boostedScore_def Let_def)

text \<open>
  Claim C1 (defect). For the items \<open>Pixel 8\<close> and \<open>Pixel Buds\<close> and the query
  \<open>pixelbud\<close>, which neither the exact nor the partial matcher answers, let the library
  report \<open>Pixel Buds\<close> (one edit away from the query) with a score below that of
  \<open>Pixel 8\<close> (three edits away), as it does on its scale where 0 is a perfect match.
  The fuzzy matcher hands both scores on as they are, nothing later inverts them, and the
  closer match ends with the strictly lower final score.
\<close>

theorem closer_fuzzy_match_scores_lower:
  assumes lib: "fuseSearch exSearchable ''pixelbud'' =
      [\<lparr>fr_item = exSearchable ! 1, fr_refIndex = 1, fr_score = sBuds, fr_matches = mBuds\<rparr>,
       \<lparr>fr_item = exSearchable ! 0, fr_refIndex = 0, fr_score = sPixel, fr_matches = mPixel\<rparr>]"
    and closer: "sBuds < sPixel" and le: "sPixel \<le> 1"
  shows "map (\<lambda>r. (pid (item r), score r, algorithm r))
           (performTextSearch fuseSearch [exProduct, exBuds] ''pixelbud'')
         = [(''p5'', sBuds, ''fuzzy''), (''p1'', sPixel, ''fuzzy'')]
       \<and> map (\<lambda>h. (pid (hit_product h), searchScore h))
           (results (fst (search fuseSearch e [exProduct, exBuds]
                            (noParams\<lparr>sp_query := Some ''pixelbud''\<rparr>) pop)))
         = [(''p5'', sBuds), (''p1'', sPixel)]"
proof -
  define rB where "rB = \<lparr>item = exSearchable ! 1, score = sBuds, matches = mBuds,
                          algorithm = ''fuzzy'', refIndex = Some 1\<rparr>"
  define rP where "rP = \<lparr>item = exSearchable ! 0, score = sPixel, matches = mPixel,
                          algorithm = ''fuzzy'', refIndex = Some 0\<rparr>"
  have fz: "fuzzySearch fuseSearch exSearchable ''pixelbud'' = [rB, rP]"
    by (simp add: fuzzySearch_def lib rB_def rP_def)
  have ids: "pid (item rB) = ''p5''" "pid (item rP) = ''p1''"
    by (simp_all add: rB_def rP_def exSearchable_fields)
  have sc: "score rB = sBuds" "score rP = sPixel" "algorithm rB = ''fuzzy''"
    "algorithm rP = ''fuzzy''"
    by (simp_all add: rB_def rP_def)
  have pts: "performTextSearch fuseSearch [exProduct, exBuds] ''pixelbud'' = [rB, rP]"
    unfolding performTextSearch_def Let_def exSearchable_def[symmetric]
    by (simp add: fz exSearchable_only_fuzzy combineSearchResults_def ids)
  have bs: "boostedScore rB = sBuds" "boostedScore rP = sPixel"
    using boostedScore_plain[of rB] boostedScore_plain[of rP]
    by (simp_all add: rB_def rP_def exSearchable_fields)
  have "rB\<lparr>score := sBuds\<rparr> = rB" "rP\<lparr>score := sPixel\<rparr> = rP"
    by (simp_all add: rB_def rP_def)
  then have adv: "applyAdvancedScoring [rB, rP] = [rB, rP]"
    using closer le by (simp add: applyAdvancedScoring_def bs)
  have lt: "score rB < score rP" using closer by (simp add: sc)
  have srt: "sortResults [rB, rP] ''relevance'' ''desc'' = [rB, rP]"
    by (rule sortResults_pair_desc_relevance(2)[OF lt])
  define sp where "sp = noParams\<lparr>sp_query := Some ''pixelbud''\<rparr>"
  have spf: "sp_query sp = Some ''pixelbud''" "sp_brand sp = None" "sp_category sp = None"
    "sp_minPrice sp = None" "sp_maxPrice sp = None" "sp_inStock sp = None"
    "sp_sortBy sp = None" "sp_sortOrder sp = None" "sp_limit sp = None" "sp_offset sp = None"
    by (simp_all add: sp_def noParams_def)
  have tr: "textResults fuseSearch [exProduct, exBuds] sp = [rB, rP]"
    by (simp add: textResults_def withDefault_def spf exSearchable_unfiltered
        exSearchable_only_fuzzy pts)
  have rk: "rankedResults fuseSearch [exProduct, exBuds] sp = [rB, rP]"
    by (simp add: rankedResults_def tr adv withDefault_def spf srt)
  have "results (fst (search fuseSearch e [exProduct, exBuds] sp pop))
        = map (\<lambda>result. \<lparr>hit_product = item result, searchScore = score result,
                          hit_matches = matches result\<rparr>) [rB, rP]"
    unfolding search_results rk by (simp add: slice_def withDefault_def spf)
  then have "map (\<lambda>h. (pid (hit_product h), searchScore h))
           (results (fst (search fuseSearch e [exProduct, exBuds] sp pop)))
         = [(''p5'', sBuds), (''p1'', sPixel)]"
    by (simp add: ids sc)
  then show ?thesis unfolding sp_def by (simp add: pts ids sc)
qed

lemma exFuseRecorded_answer:
  "exFuseRecorded exSearchable ''pixelbud'' =
      [\<lparr>fr_item = exSearchable ! 1, fr_refIndex = 1, fr_score = 571 / 1000,
        fr_matches = [(''name'', ''Pixel Buds''), (''keywords'', ''pixel'')]\<rparr>,
       \<lparr>fr_item = exSearchable ! 0, fr_refIndex = 0, fr_score = 713 / 1000,
        fr_matches = [(''name'', ''Pixel 8''), (''keywords'', ''pixel'')]\<rparr>]"
  by (simp add: exFuseRecorded_def)

theorem closer_fuzzy_match_scores_lower_witness:
  "map (\<lambda>h. (pid (hit_product h), searchScore h))
           (results (fst (search exFuseRecorded 0 [exProduct, exBuds]
                            (noParams\<lparr>sp_query := Some ''pixelbud''\<rparr>) [])))
         = [(''p5'', 571 / 1000), (''p1'', 713 / 1000)]
   \<and> (571 / 1000 :: real) < 713 / 1000"
  using closer_fuzzy_match_scores_lower[where fuseSearch=exFuseRecorded and e=0 and pop="[]",
      OF exFuseRecorded_answer]
  by simp

end
